theory Spec2Isabelle
  imports Complex_Main "HOL-Library.Sublist"
begin

section \<open>The MemoRable MCP client (memorable\_client.py)\<close>

text \<open>
  A shallow embedding of \<^verbatim>\<open>src/clients/python/memorable_client.py\<close>: the record
  normaliser \<^verbatim>\<open>Memory.from_dict\<close>, the class \<^verbatim>\<open>MemoRableClient\<close> with its
  transport (\<^verbatim>\<open>_mcp_request\<close>), tool invoker (\<^verbatim>\<open>_call_tool\<close>), \<^verbatim>\<open>connect\<close> and
  \<^verbatim>\<open>close\<close>, and the module-level singleton \<^verbatim>\<open>get_memorable_client\<close>.

  Mutation of the client object is explicit state passing, every exception is a value of
  \<open>py_error\<close>, and the remote server is a parameter: a function from the requests
  posted so far to the reply to the latest one.
\<close>

subsection \<open>Python values\<close>

text \<open>
  The values the client handles are decoded JSON documents: \<^verbatim>\<open>None\<close>, booleans,
  numbers, strings, lists and dicts. A dict is an association list in insertion order;
  a lookup takes the first entry of a key (a decoded dict has each key once).
  \<open>JFloat\<close> stands for a number with a fraction or an exponent; no operation of the
  client looks inside one.
\<close>

datatype json =
    JNull
  | JBool bool
  | JInt int
  | JFloat real
  | JStr string
  | JList "json list"
  | JObj "(string \<times> json) list"

type_synonym dict = "(string \<times> json) list"

text \<open>
  The exceptions that can leave the modelled code. \<open>McpError e\<close> is
  \<^verbatim>\<open>Exception(f"MCP error: {data['error']}")\<close>, with \<open>e\<close> the value of
  \<^verbatim>\<open>data['error']\<close> that the message is formatted from. \<open>ClientError\<close> is a
  failure of \<^verbatim>\<open>session.post\<close>; \<open>JSONDecodeError\<close> is a failure of
  \<^verbatim>\<open>json.loads\<close> or \<^verbatim>\<open>resp.json()\<close> on the text; \<open>RecursionError\<close> and a
  plain \<open>ValueError\<close> are the other things \<^verbatim>\<open>json.loads\<close> raises;
  \<open>ValueError\<close> is also a failure of \<^verbatim>\<open>datetime.fromisoformat\<close>.
\<close>

datatype py_error =
    McpError json
  | ClientError
  | JSONDecodeError
  | TypeError
  | KeyError
  | AttributeError
  | ValueError
  | RecursionError

text \<open>
  \<^verbatim>\<open>json.loads\<close> belongs to the Python library and is a parameter. Applied to a
  string it returns the decoded document or raises one of three exceptions:
  \<^verbatim>\<open>JSONDecodeError\<close> on text that is not JSON, \<^verbatim>\<open>RecursionError\<close> on
  nesting deeper than the interpreter allows, and a plain \<^verbatim>\<open>ValueError\<close> on an integer
  literal with more digits than the interpreter converts. \<^verbatim>\<open>JSONDecodeError\<close> is a
  subclass of \<^verbatim>\<open>ValueError\<close>; a handler for \<^verbatim>\<open>JSONDecodeError\<close> does not catch a
  plain \<^verbatim>\<open>ValueError\<close>.
\<close>

datatype loads_failure = NotJSON | TooDeep | TooManyDigits

fun loads_error :: "loads_failure \<Rightarrow> py_error" where
  "loads_error NotJSON = JSONDecodeError"
| "loads_error TooDeep = RecursionError"
| "loads_error TooManyDigits = ValueError"

type_synonym json_loads = "string \<Rightarrow> loads_failure + json"

text \<open>\<^verbatim>\<open>d.get(k, default)\<close> on a dict.\<close>

definition dict_get :: "dict \<Rightarrow> string \<Rightarrow> json \<Rightarrow> json" where
  "dict_get d k dflt = (case map_of d k of Some v \<Rightarrow> v | None \<Rightarrow> dflt)"

text \<open>
  \<^verbatim>\<open>k in data\<close> for a string \<open>k\<close>: key membership on a dict, element membership on
  a list, substring test on a string, and \<^verbatim>\<open>TypeError\<close> on a value that is not
  iterable.
\<close>

fun py_in :: "string \<Rightarrow> json \<Rightarrow> py_error + bool" where
  "py_in k (JObj d) = Inr (k \<in> set (map fst d))"
| "py_in k (JList xs) = Inr (JStr k \<in> set xs)"
| "py_in k (JStr t) = Inr (sublist k t)"
| "py_in k JNull = Inl TypeError"
| "py_in k (JBool b) = Inl TypeError"
| "py_in k (JInt i) = Inl TypeError"
| "py_in k (JFloat r) = Inl TypeError"

text \<open>
  \<^verbatim>\<open>data[k]\<close> for a string \<open>k\<close>: \<^verbatim>\<open>KeyError\<close> on a dict without the key,
  \<^verbatim>\<open>TypeError\<close> on every value that is not a dict (a list and a string want
  integer indices, the others are not subscriptable).
\<close>

fun py_getitem :: "json \<Rightarrow> string \<Rightarrow> py_error + json" where
  "py_getitem (JObj d) k = (case map_of d k of Some v \<Rightarrow> Inr v | None \<Rightarrow> Inl KeyError)"
| "py_getitem v k = Inl TypeError"

text \<open>\<^verbatim>\<open>s.split(c)\<close> for a one-character separator: never the empty list.\<close>

fun split_on :: "char \<Rightarrow> string \<Rightarrow> string list" where
  "split_on c [] = [[]]"
| "split_on c (x # xs) =
     (if x = c then [] # split_on c xs
      else (case split_on c xs of
              l # ls \<Rightarrow> (x # l) # ls
            | [] \<Rightarrow> [[x]]))"

text \<open>
  \<^verbatim>\<open>s.replace(old, new)\<close>: every occurrence of \<open>old\<close>, left to right, without
  overlap. (For the empty \<open>old\<close> Python inserts \<open>new\<close> between the characters; the
  client only calls it with \<^verbatim>\<open>"Z"\<close>, and the empty pattern is left alone here.)
\<close>

function py_replace :: "string \<Rightarrow> string \<Rightarrow> string \<Rightarrow> string" where
  "py_replace old new [] = []"
| "py_replace old new (c # cs) =
     (if old \<noteq> [] \<and> prefix old (c # cs)
      then new @ py_replace old new (drop (length old) (c # cs))
      else c # py_replace old new cs)"
  by pat_completeness auto
termination
  by (relation "measure (\<lambda>(old, new, s). length s)") (auto simp: Suc_diff_le)

subsection \<open>Memory.from\_dict\<close>

text \<open>
  The dataclass \<^verbatim>\<open>Memory\<close>. Python does not enforce the annotations, so a field
  holds whatever the raw map holds. The timestamp is a \<^verbatim>\<open>datetime\<close> when the raw
  value was a string (\<open>Parsed\<close>) and the raw value itself otherwise (\<open>Raw\<close>).
  The type \<open>'d\<close> of datetimes and the parser \<^verbatim>\<open>datetime.fromisoformat\<close> belong to
  the Python library: they are parameters, the parser returning \<open>None\<close> where the
  library raises \<^verbatim>\<open>ValueError\<close>.
\<close>

datatype 'd timestamp = Parsed 'd | Raw json

record 'd memory =
  mem_id :: json
  mem_content :: json
  mem_salience :: json
  mem_timestamp :: "'d timestamp"
  mem_entity :: json
  mem_context :: json

text \<open>
  \<^verbatim>\<open>Memory.from_dict(data)\<close>. \<open>now_iso\<close> is the string
  \<^verbatim>\<open>datetime.now().isoformat()\<close> read from the wall clock at the call.
\<close>

definition from_dict ::
  "(string \<Rightarrow> 'd option) \<Rightarrow> string \<Rightarrow> dict \<Rightarrow> py_error + 'd memory" where
  "from_dict fromisoformat now_iso data =
     (let ts = dict_get data ''timestamp'' (dict_get data ''createdAt'' (JStr now_iso));
          rest = (\<lambda>t. \<lparr> mem_id = dict_get data ''_id''
                              (dict_get data ''id'' (dict_get data ''memoryId'' (JStr ''''))),
                         mem_content = dict_get data ''content'' (dict_get data ''text'' (JStr '''')),
                         mem_salience = dict_get data ''salience''
                              (dict_get data ''salience_score''
                                 (dict_get data ''salienceScore'' (JInt 50))),
                         mem_timestamp = t,
                         mem_entity = dict_get data ''entity'' JNull,
                         mem_context = dict_get data ''context'' (JObj []) \<rparr>)
      in case ts of
           JStr s \<Rightarrow>
             (case fromisoformat (py_replace ''Z'' ''+00:00'' s) of
                None \<Rightarrow> Inl ValueError
              | Some d \<Rightarrow> Inr (rest (Parsed d)))
         | _ \<Rightarrow> Inr (rest (Raw ts)))"

subsection \<open>The client object and the wire\<close>

text \<open>
  What \<^verbatim>\<open>session.post(self.mcp_url, json=payload, headers=headers)\<close> sends.
\<close>

record request =
  req_url :: string
  req_payload :: dict
  req_headers :: "(string \<times> string) list"

text \<open>
  What the client reads of a response: the header \<^verbatim>\<open>Mcp-Session-Id\<close>
  (\<open>None\<close> when absent), the status, \<^verbatim>\<open>resp.content_type\<close>, the text of the body,
  and the outcome of aiohttp's \<^verbatim>\<open>resp.json()\<close> on it (\<open>None\<close> when it raises).
\<close>

record response =
  resp_session_id :: "string option"
  resp_status :: nat
  resp_content_type :: string
  resp_text :: string
  resp_json :: "json option"

datatype reply = Fail | Reply response

text \<open>
  The server: given the requests posted so far, the latest last, the reply to the
  latest. \<open>Fail\<close> is \<^verbatim>\<open>session.post\<close> raising.
\<close>

type_synonym server = "request list \<Rightarrow> reply"

text \<open>
  The fields of \<^verbatim>\<open>MemoRableClient\<close>. \<open>http_open\<close> says that \<^verbatim>\<open>self._session\<close>
  is an open aiohttp session. \<open>sent\<close> is not a field of the class: it records the
  requests the object has posted, oldest first.
\<close>

record client =
  mcp_url :: string
  entity :: string
  device_id :: string
  device_type :: string
  http_open :: bool
  mcp_session_id :: "string option"
  request_id :: int
  initialized :: bool
  sent :: "request list"

text \<open>\<^verbatim>\<open>MemoRableClient.__init__\<close>.\<close>

definition new_client :: "string \<Rightarrow> string \<Rightarrow> string \<Rightarrow> string \<Rightarrow> client" where
  "new_client url ent dev typ =
     \<lparr> mcp_url = url, entity = ent, device_id = dev, device_type = typ,
       http_open = False, mcp_session_id = None, request_id = 0,
       initialized = False, sent = [] \<rparr>"

text \<open>\<^verbatim>\<open>_next_id\<close>: increment, then return the new value.\<close>

definition next_id :: "client \<Rightarrow> int \<times> client" where
  "next_id s = (request_id s + 1, s\<lparr>request_id := request_id s + 1\<rparr>)"

text \<open>\<^verbatim>\<open>_get_session\<close>: open a session unless one is open.\<close>

definition get_session :: "client \<Rightarrow> client" where
  "get_session s = (if \<not> http_open s then s\<lparr>http_open := True\<rparr> else s)"

subsection \<open>\_mcp\_request\<close>

text \<open>
  The envelope and the headers \<^verbatim>\<open>_mcp_request\<close> builds, and the state after the
  id was taken.
\<close>

definition build_request ::
  "string \<Rightarrow> dict option \<Rightarrow> bool \<Rightarrow> client \<Rightarrow> request \<times> client" where
  "build_request method params is_notification s =
     (let (id_part, s1) =
            (if \<not> is_notification
             then (let (n, s') = next_id s in ([(''id'', JInt n)], s'))
             else ([], s));
          payload = [(''jsonrpc'', JStr ''2.0''), (''method'', JStr method)] @ id_part
                    @ (case params of Some p \<Rightarrow> [(''params'', JObj p)] | None \<Rightarrow> []);
          headers = [(''Content-Type'', ''application/json''),
                     (''Accept'', ''application/json, text/event-stream'')]
                    @ (case mcp_session_id s1 of
                         Some sid \<Rightarrow> (if sid \<noteq> [] then [(''Mcp-Session-Id'', sid)] else [])
                       | None \<Rightarrow> [])
      in (\<lparr> req_url = mcp_url s1, req_payload = payload, req_headers = headers \<rparr>, s1))"

text \<open>
  The two tests on a decoded document \<open>data\<close>, first \<^verbatim>\<open>"result"\<close>, then
  \<^verbatim>\<open>"error"\<close>; \<open>None\<close> when the document has neither and the caller goes on.
\<close>

definition extract_outcome :: "json \<Rightarrow> (py_error + json) option" where
  "extract_outcome data =
     (case py_in ''result'' data of
        Inl e \<Rightarrow> Some (Inl e)
      | Inr True \<Rightarrow> Some (py_getitem data ''result'')
      | Inr False \<Rightarrow>
          (case py_in ''error'' data of
             Inl e \<Rightarrow> Some (Inl e)
           | Inr True \<Rightarrow>
               (case py_getitem data ''error'' of
                  Inl e \<Rightarrow> Some (Inl e)
                | Inr p \<Rightarrow> Some (Inl (McpError p)))
           | Inr False \<Rightarrow> None))"

text \<open>
  The loop over the lines of an SSE body. \<open>loads\<close> is \<^verbatim>\<open>json.loads\<close>; what it
  raises is not caught here.
\<close>

fun sse_scan :: "json_loads \<Rightarrow> string list \<Rightarrow> py_error + json" where
  "sse_scan loads [] = Inr JNull"
| "sse_scan loads (line # rest) =
     (if prefix ''data: '' line
      then (case loads (drop 6 line) of
              Inl failure \<Rightarrow> Inl (loads_error failure)
            | Inr data \<Rightarrow>
                (case extract_outcome data of
                   Some out \<Rightarrow> out
                 | None \<Rightarrow> sse_scan loads rest))
      else sse_scan loads rest)"

text \<open>Decoding the body of a response that is read (lines 152 to 171).\<close>

definition decode_body :: "json_loads \<Rightarrow> response \<Rightarrow> py_error + json" where
  "decode_body loads r =
     (if sublist ''text/event-stream'' (resp_content_type r)
      then sse_scan loads (split_on (CHR 0x0A) (resp_text r))
      else (case resp_json r of
              None \<Rightarrow> Inl JSONDecodeError
            | Some data \<Rightarrow>
                (case extract_outcome data of
                   Some out \<Rightarrow> out
                 | None \<Rightarrow> Inr data)))"

text \<open>
  What the client does with a reply: store the session id of the response, then return
  \<^verbatim>\<open>None\<close> for a notification or a status 202 or 204, and decode the body otherwise.
\<close>

definition receive ::
  "json_loads \<Rightarrow> bool \<Rightarrow> reply \<Rightarrow> client \<Rightarrow> (py_error + json) \<times> client" where
  "receive loads is_notification rep s =
     (case rep of
        Fail \<Rightarrow> (Inl ClientError, s)
      | Reply r \<Rightarrow>
          (let s1 = (case resp_session_id r of
                       Some sid \<Rightarrow> (if sid \<noteq> [] then s\<lparr>mcp_session_id := Some sid\<rparr> else s)
                     | None \<Rightarrow> s)
           in if is_notification \<or> resp_status r = 202 \<or> resp_status r = 204
              then (Inr JNull, s1)
              else (decode_body loads r, s1)))"

definition mcp_request ::
  "server \<Rightarrow> json_loads \<Rightarrow> string \<Rightarrow> dict option \<Rightarrow> bool \<Rightarrow> client
     \<Rightarrow> (py_error + json) \<times> client" where
  "mcp_request srv loads method params is_notification s =
     (let (req, s1) = build_request method params is_notification (get_session s);
          s2 = s1\<lparr>sent := sent s1 @ [req]\<rparr>
      in receive loads is_notification (srv (sent s2)) s2)"

subsection \<open>connect and close\<close>

text \<open>The parameters of the \<^verbatim>\<open>initialize\<close> request.\<close>

definition MCP_PROTOCOL_VERSION :: string where
  "MCP_PROTOCOL_VERSION = ''2025-03-26''"

definition initialize_params :: "client \<Rightarrow> dict" where
  "initialize_params s =
     [(''protocolVersion'', JStr MCP_PROTOCOL_VERSION),
      (''capabilities'', JObj []),
      (''clientInfo'', JObj [(''name'', JStr (''memorable-'' @ entity s)),
                             (''version'', JStr ''1.0.0'')])]"

text \<open>
  \<^verbatim>\<open>connect\<close>: the \<^verbatim>\<open>initialize\<close> request, the flag, the notification; the
  handler of \<^verbatim>\<open>except Exception\<close> prints the failure and returns \<^verbatim>\<open>False\<close>,
  keeping the state the failing call left.
\<close>

definition connect :: "server \<Rightarrow> json_loads \<Rightarrow> client \<Rightarrow> bool \<times> client" where
  "connect srv loads s =
     (case mcp_request srv loads ''initialize'' (Some (initialize_params s)) False s of
        (Inl e, s1) \<Rightarrow> (False, s1)
      | (Inr result, s1) \<Rightarrow>
          (let s2 = s1\<lparr>initialized := True\<rparr>
           in case mcp_request srv loads ''notifications/initialized'' None True s2 of
                (Inl e, s3) \<Rightarrow> (False, s3)
              | (Inr r, s3) \<Rightarrow> (True, s3)))"

text \<open>\<^verbatim>\<open>close\<close>.\<close>

definition close :: "client \<Rightarrow> client" where
  "close s =
     (let s1 = (if http_open s then s\<lparr>http_open := False\<rparr> else s)
      in s1\<lparr>initialized := False, mcp_session_id := None\<rparr>)"

subsection \<open>\_call\_tool\<close>

text \<open>
  Lines 183 to 191: the content-block convention. The test
  \<^verbatim>\<open>result and isinstance(result, dict)\<close> holds exactly of a dict that is not empty.
  \<^verbatim>\<open>content[0].get\<close> raises \<^verbatim>\<open>AttributeError\<close> when the first element is not a
  dict. \<^verbatim>\<open>json.loads(text)\<close> raises \<^verbatim>\<open>TypeError\<close> when \<open>text\<close> is not a
  string and \<^verbatim>\<open>JSONDecodeError\<close> when it is not JSON; these two are caught and
  \<open>text\<close> is returned. The handler names no other exception: a
  \<^verbatim>\<open>RecursionError\<close> or a plain \<^verbatim>\<open>ValueError\<close> of \<^verbatim>\<open>json.loads\<close> leaves
  \<^verbatim>\<open>_call_tool\<close>.
\<close>

definition unwrap_content :: "json_loads \<Rightarrow> json \<Rightarrow> py_error + json" where
  "unwrap_content loads result =
     (case result of
        JObj d \<Rightarrow>
          (if d \<noteq> []
           then (case dict_get d ''content'' (JList []) of
                   JList (first # others) \<Rightarrow>
                     (case first of
                        JObj block \<Rightarrow>
                          (let text = dict_get block ''text'' (JStr '''')
                           in case text of
                                JStr t \<Rightarrow>
                                  (case loads t of
                                     Inr v \<Rightarrow> Inr v
                                   | Inl NotJSON \<Rightarrow> Inr text
                                   | Inl failure \<Rightarrow> Inl (loads_error failure))
                              | _ \<Rightarrow> Inr text)
                      | _ \<Rightarrow> Inl AttributeError)
                 | _ \<Rightarrow> Inr result)
           else Inr result)
      | _ \<Rightarrow> Inr result)"

definition tool_params :: "string \<Rightarrow> dict \<Rightarrow> dict" where
  "tool_params tool_name arguments = [(''name'', JStr tool_name), (''arguments'', JObj arguments)]"

definition call_tool ::
  "server \<Rightarrow> json_loads \<Rightarrow> string \<Rightarrow> dict \<Rightarrow> client \<Rightarrow> (py_error + json) \<times> client" where
  "call_tool srv loads tool_name arguments s =
     (let s1 = (if \<not> initialized s then snd (connect srv loads s) else s)
      in case mcp_request srv loads ''tools/call'' (Some (tool_params tool_name arguments)) False s1 of
           (Inl e, s2) \<Rightarrow> (Inl e, s2)
         | (Inr result, s2) \<Rightarrow> (unwrap_content loads result, s2))"

subsection \<open>The singleton\<close>

text \<open>
  The module keeps one global, \<^verbatim>\<open>_client\<close>, a reference to a client object or
  \<^verbatim>\<open>None\<close>. Objects live in a store, a reference is an index into it, and creating an
  object appends to the store.
\<close>

record module_state =
  objects :: "client list"
  client_ref :: "nat option"

definition get_memorable_client ::
  "string \<Rightarrow> string \<Rightarrow> string \<Rightarrow> string \<Rightarrow> module_state \<Rightarrow> nat \<times> module_state" where
  "get_memorable_client url ent dev typ g =
     (case client_ref g of
        None \<Rightarrow>
          (let a = length (objects g)
           in (a, g\<lparr>objects := objects g @ [new_client url ent dev typ], client_ref := Some a\<rparr>))
      | Some a \<Rightarrow> (a, g))"

subsection \<open>Sequences of calls on one client\<close>

datatype call =
    McpRequest string "dict option" bool
  | Connect
  | CallTool string dict
  | Close

fun perform :: "server \<Rightarrow> json_loads \<Rightarrow> client \<Rightarrow> call \<Rightarrow> client" where
  "perform srv loads s (McpRequest method params is_notification) =
     snd (mcp_request srv loads method params is_notification s)"
| "perform srv loads s Connect = snd (connect srv loads s)"
| "perform srv loads s (CallTool tool_name arguments) =
     snd (call_tool srv loads tool_name arguments s)"
| "perform srv loads s Close = close s"

definition run :: "server \<Rightarrow> json_loads \<Rightarrow> call list \<Rightarrow> client \<Rightarrow> client" where
  "run srv loads calls s = foldl (perform srv loads) s calls"

text \<open>The ids on the wire: the \<^verbatim>\<open>id\<close> of every posted envelope that has one, in order.\<close>

definition wire_ids :: "request list \<Rightarrow> json list" where
  "wire_ids reqs = List.map_filter (\<lambda>r. map_of (req_payload r) ''id'') reqs"

text \<open>
  The invariant of the id counter: the ids posted so far are \<open>1, 2, ...\<close> up to the
  counter, in this order.
\<close>

definition ids_in_order :: "client \<Rightarrow> bool" where
  "ids_in_order s = (0 \<le> request_id s \<and> wire_ids (sent s) = map JInt [1 .. request_id s])"

subsection \<open>Sample servers, documents and clients\<close>

text \<open>
  Concrete inputs at which the theorems below are instantiated. \<open>default_client\<close> is
  \<^verbatim>\<open>MemoRableClient()\<close> with the defaults of the constructor. \<open>always rep\<close> is a
  server that gives the reply \<open>rep\<close> to every request. \<open>json_response\<close> and
  \<open>sse_response\<close> are responses with status 200 and no session header, one carrying a
  decoded JSON body and one the text of an event stream.
\<close>

definition default_client :: client where
  "default_client = new_client ''http://52.9.62.72:8080/mcp'' ''chloe'' ''johnny5-main'' ''robot''"

definition always :: "reply \<Rightarrow> server" where
  "always rep history = rep"

definition json_response :: "json \<Rightarrow> response" where
  "json_response data =
     \<lparr> resp_session_id = None, resp_status = 200, resp_content_type = ''application/json'',
       resp_text = [], resp_json = Some data \<rparr>"

definition sse_response :: "string \<Rightarrow> response" where
  "sse_response body =
     \<lparr> resp_session_id = None, resp_status = 200, resp_content_type = ''text/event-stream'',
       resp_text = body, resp_json = None \<rparr>"

text \<open>
  An excerpt of \<^verbatim>\<open>json.loads\<close>. The documents listed decode as Python decodes them.
  \<open>deep_text\<close>, a hundred thousand opening brackets, makes Python raise
  \<^verbatim>\<open>RecursionError\<close>. On the other texts the excerpt is applied to below,
  \<^verbatim>\<open>hello\<close>, \<^verbatim>\<open>not json\<close> and the empty string, Python raises
  \<^verbatim>\<open>JSONDecodeError\<close>.
\<close>

definition deep_text :: string where
  "deep_text = replicate 100000 (CHR ''['')"

definition loads_sample :: json_loads where
  \<open>loads_sample t =
     (case map_of [(''{"result": 42}'', JObj [(''result'', JInt 42)]),
                   (''{"result": 1, "error": "boom"}'',
                      JObj [(''result'', JInt 1), (''error'', JStr ''boom'')]),
                   (''{"error": "boom"}'', JObj [(''error'', JStr ''boom'')]),
                   (''{"method": "ping"}'', JObj [(''method'', JStr ''ping'')]),
                   (''{"memoryId": "m1"}'', JObj [(''memoryId'', JStr ''m1'')]),
                   (''42'', JInt 42)] t of
        Some v \<Rightarrow> Inr v
      | None \<Rightarrow> (if t = deep_text then Inl TooDeep else Inl NotJSON))\<close>

text \<open>
  \<open>ok_response\<close> is the JSON reply with an empty result. \<open>answers_once r\<close> is a server
  that gives the response \<open>r\<close> to the first request posted and cannot be reached
  afterwards. \<open>ready_client\<close> is a client whose handshake has been done.
  \<open>module_init\<close> is the module just imported: no object, \<^verbatim>\<open>_client\<close> is
  \<^verbatim>\<open>None\<close>.
\<close>

definition ok_response :: response where
  "ok_response = json_response (JObj [(''result'', JObj [])])"

definition answers_once :: "response \<Rightarrow> server" where
  "answers_once r history = (if length history \<le> 1 then Reply r else Fail)"

definition ready_client :: client where
  "ready_client = default_client\<lparr>initialized := True\<rparr>"

definition module_init :: module_state where
  "module_init = \<lparr> objects = [], client_ref = None \<rparr>"

text \<open>
  \<open>with_session_id sid r\<close> is the response \<open>r\<close> with the header
  \<^verbatim>\<open>Mcp-Session-Id: sid\<close>. \<open>bad_request_response\<close> is an error response: status 400
  and a plain-text body, on which \<^verbatim>\<open>resp.json()\<close> raises.
\<close>

definition with_session_id :: "string \<Rightarrow> response \<Rightarrow> response" where
  "with_session_id sid r = r\<lparr>resp_session_id := Some sid\<rparr>"

definition bad_request_response :: response where
  "bad_request_response =
     \<lparr> resp_session_id = None, resp_status = 400, resp_content_type = ''text/plain'',
       resp_text = ''Bad Request'', resp_json = None \<rparr>"

section \<open>Properties\<close>

subsection \<open>What a request does to the state\<close>


lemma build_request_state:
  "snd (build_request m p n s) = (if n then s else s\<lparr>request_id := request_id s + 1\<rparr>)"
  by (simp add: build_request_def next_id_def)

lemma build_request_id:
  "map_of (req_payload (fst (build_request m p n s))) ''id'' =
     (if n then None else Some (JInt (request_id s + 1)))"
  by (cases p) (simp_all add: build_request_def next_id_def)

lemma get_session_fields:
  "request_id (get_session s) = request_id s"
  "sent (get_session s) = sent s"
  "initialized (get_session s) = initialized s"
  "mcp_session_id (get_session s) = mcp_session_id s"
  "mcp_url (get_session s) = mcp_url s"
  by (simp_all add: get_session_def)

lemma receive_fields:
  "request_id (snd (receive loads n rep s)) = request_id s"
  "sent (snd (receive loads n rep s)) = sent s"
  "initialized (snd (receive loads n rep s)) = initialized s"
  by (simp_all add: receive_def Let_def split: reply.splits option.splits)

lemma mcp_request_sent:
  "sent (snd (mcp_request srv loads m p n s)) = sent s @ [fst (build_request m p n (get_session s))]"
  by (simp add: mcp_request_def receive_fields split_beta Let_def build_request_state get_session_def)

lemma mcp_request_request_id:
  "request_id (snd (mcp_request srv loads m p n s)) = (if n then request_id s else request_id s + 1)"
  by (simp add: mcp_request_def receive_fields split_beta Let_def build_request_state get_session_def)


lemma receive_outcome_state_free:
  "fst (receive loads n rep s) = fst (receive loads n rep s')"
  by (simp add: receive_def Let_def split: reply.splits)

lemma mcp_request_unfold:
  "mcp_request srv loads m p n s =
     receive loads n (srv (sent s @ [fst (build_request m p n (get_session s))]))
       ((snd (build_request m p n (get_session s)))
          \<lparr>sent := sent s @ [fst (build_request m p n (get_session s))]\<rparr>)"
  by (simp add: mcp_request_def split_beta Let_def build_request_state get_session_fields)

lemma mcp_request_outcome:
  "fst (mcp_request srv loads m p n s) =
     fst (receive loads n (srv (sent (snd (mcp_request srv loads m p n s)))) s')"
  unfolding mcp_request_sent
  by (subst mcp_request_unfold) (rule receive_outcome_state_free)

lemma extract_outcome_obj:
  "extract_outcome (JObj d) =
     (case map_of d ''result'' of
        Some v \<Rightarrow> Some (Inr v)
      | None \<Rightarrow> (case map_of d ''error'' of
                   Some e \<Rightarrow> Some (Inl (McpError e))
                 | None \<Rightarrow> None))"
proof -
  have mem: "(k \<in> fst ` set d) = (map_of d k \<noteq> None)" for k
    by (simp add: map_of_eq_None_iff)
  show ?thesis
    by (auto simp: extract_outcome_def mem split: option.splits)
qed

lemma wire_ids_append: "wire_ids (xs @ ys) = wire_ids xs @ wire_ids ys"
  by (simp add: wire_ids_def List.map_filter_def)

lemma wire_ids_single:
  "wire_ids [r] = (case map_of (req_payload r) ''id'' of None \<Rightarrow> [] | Some v \<Rightarrow> [v])"
  by (simp add: wire_ids_def List.map_filter_def split: option.splits)

lemma ids_in_order_mcp_request:
  assumes "ids_in_order s"
  shows "ids_in_order (snd (mcp_request srv loads m p n s))"
proof (cases n)
  case True
  then show ?thesis
    using assms
    by (simp add: ids_in_order_def mcp_request_sent mcp_request_request_id wire_ids_append
        wire_ids_single build_request_id)
next
  case False
  have "[1 .. request_id s + 1] = [1 .. request_id s] @ [request_id s + 1]"
    using assms by (simp add: ids_in_order_def upto_rec2)
  with False show ?thesis
    using assms
    by (simp add: ids_in_order_def mcp_request_sent mcp_request_request_id wire_ids_append
        wire_ids_single build_request_id get_session_fields)
qed

lemma ids_in_order_set_initialized:
  "ids_in_order (s\<lparr>initialized := b\<rparr>) = ids_in_order s"
  by (simp add: ids_in_order_def)

lemma connect_state:
  "snd (connect srv loads s) =
     (let r1 = mcp_request srv loads ''initialize'' (Some (initialize_params s)) False s
      in case fst r1 of
           Inl e \<Rightarrow> snd r1
         | Inr v \<Rightarrow> snd (mcp_request srv loads ''notifications/initialized'' None True
                           ((snd r1)\<lparr>initialized := True\<rparr>)))"
  by (simp add: connect_def Let_def split: prod.splits sum.splits)

lemma ids_in_order_connect:
  assumes "ids_in_order s"
  shows "ids_in_order (snd (connect srv loads s))"
proof -
  let ?r1 = "mcp_request srv loads ''initialize'' (Some (initialize_params s)) False s"
  have a: "ids_in_order (snd ?r1)"
    using assms by (rule ids_in_order_mcp_request)
  then have "ids_in_order ((snd ?r1)\<lparr>initialized := True\<rparr>)"
    by (simp add: ids_in_order_set_initialized)
  then have "ids_in_order (snd (mcp_request srv loads ''notifications/initialized'' None True
                           ((snd ?r1)\<lparr>initialized := True\<rparr>)))"
    by (rule ids_in_order_mcp_request)
  with a show ?thesis
    by (simp add: connect_state Let_def split: sum.splits)
qed

lemma call_tool_state:
  "snd (call_tool srv loads t a s) =
     snd (mcp_request srv loads ''tools/call'' (Some (tool_params t a)) False
            (if initialized s then s else snd (connect srv loads s)))"
  by (simp add: call_tool_def Let_def split: prod.splits sum.splits)

lemma ids_in_order_call_tool:
  assumes "ids_in_order s"
  shows "ids_in_order (snd (call_tool srv loads t a s))"
  using assms
  by (simp add: call_tool_state ids_in_order_mcp_request ids_in_order_connect)

lemma ids_in_order_close: "ids_in_order (close s) = ids_in_order s"
  by (simp add: close_def ids_in_order_def Let_def)

lemma ids_in_order_perform:
  "ids_in_order s \<Longrightarrow> ids_in_order (perform srv loads s c)"
  by (cases c)
     (simp_all add: ids_in_order_mcp_request ids_in_order_connect ids_in_order_call_tool
        ids_in_order_close)

lemma ids_in_order_run:
  "ids_in_order s \<Longrightarrow> ids_in_order (run srv loads cs s)"
  unfolding run_def
  by (induction cs arbitrary: s) (simp_all add: ids_in_order_perform)

lemma ids_in_order_new_client: "ids_in_order (new_client url ent dev typ)"
  by (simp add: ids_in_order_def new_client_def wire_ids_def List.map_filter_def)

subsection \<open>Request ids\<close>

text \<open>
  Claim C5. A new client has the counter at 0, so the first id is 1. Whatever calls are made
  on it (raw requests, notifications, \<^verbatim>\<open>connect\<close>, tool calls, \<^verbatim>\<open>close\<close>)
  and whatever the server answers, the ids posted are \<open>1, 2, ..., n\<close> in this order, \<open>n\<close>
  being the counter. A request that is not a notification carries the counter plus one and
  advances the counter by one; a notification carries no id and leaves the counter alone;
  \<^verbatim>\<open>close\<close> leaves the counter alone.
\<close>

theorem request_ids_sequential:
  "request_id (new_client url ent dev typ) = 0
   \<and> wire_ids (sent (run srv loads calls (new_client url ent dev typ)))
       = map JInt [1 .. request_id (run srv loads calls (new_client url ent dev typ))]
   \<and> wire_ids [last (sent (snd (mcp_request srv loads method params False s)))]
       = [JInt (request_id s + 1)]
   \<and> request_id (snd (mcp_request srv loads method params False s)) = request_id s + 1
   \<and> wire_ids [last (sent (snd (mcp_request srv loads method params True s)))] = []
   \<and> request_id (snd (mcp_request srv loads method params True s)) = request_id s
   \<and> request_id (close s) = request_id s"
proof -
  have fresh: "request_id (new_client url ent dev typ) = 0"
    by (simp add: new_client_def)
  have trace: "wire_ids (sent (run srv loads calls (new_client url ent dev typ)))
       = map JInt [1 .. request_id (run srv loads calls (new_client url ent dev typ))]"
    using ids_in_order_run [OF ids_in_order_new_client]
    by (simp add: ids_in_order_def)
  have req: "wire_ids [last (sent (snd (mcp_request srv loads method params False s)))]
       = [JInt (request_id s + 1)]"
    by (simp add: mcp_request_sent wire_ids_single build_request_id get_session_fields)
  have notif: "wire_ids [last (sent (snd (mcp_request srv loads method params True s)))] = []"
    by (simp add: mcp_request_sent wire_ids_single build_request_id)
  have cl: "request_id (close s) = request_id s"
    by (simp add: close_def Let_def)
  from fresh trace req notif cl show ?thesis
    by (simp add: mcp_request_request_id)
qed

subsection \<open>Decoding a reply\<close>



lemma receive_read:
  "resp_status r \<noteq> 202 \<and> resp_status r \<noteq> 204 \<Longrightarrow>
     fst (receive loads False (Reply r) s) = decode_body loads r"
  by (simp add: receive_def Let_def)

lemma mcp_request_read:
  assumes "srv (sent (snd (mcp_request srv loads m p False s))) = Reply r"
    and "resp_status r \<noteq> 202 \<and> resp_status r \<noteq> 204"
  shows "fst (mcp_request srv loads m p False s) = decode_body loads r"
  using mcp_request_outcome [of srv loads m p False s s] assms
  by (simp add: receive_read)

lemma sse_scan_skip:
  assumes "\<forall>l\<in>set pre. prefix ''data: '' l \<longrightarrow>
             (\<exists>data. loads (drop 6 l) = Inr data \<and> extract_outcome data = None)"
  shows "sse_scan loads (pre @ rest) = sse_scan loads rest"
  using assms by (induction pre) auto

lemma sse_scan_skip_obj:
  assumes "\<forall>l\<in>set pre. prefix ''data: '' l \<longrightarrow>
             (\<exists>d. loads (drop 6 l) = Inr (JObj d) \<and> map_of d ''result'' = None
                  \<and> map_of d ''error'' = None)"
  shows "sse_scan loads (pre @ rest) = sse_scan loads rest"
proof (rule sse_scan_skip, rule ballI, rule impI)
  fix l assume "l \<in> set pre" and "prefix ''data: '' l"
  with assms obtain d where "loads (drop 6 l) = Inr (JObj d)"
    and "map_of d ''result'' = None" and "map_of d ''error'' = None"
    by blast
  then show "\<exists>data. loads (drop 6 l) = Inr data \<and> extract_outcome data = None"
    by (simp add: extract_outcome_obj)
qed

lemma sse_scan_frame:
  assumes "prefix ''data: '' line" and "loads (drop 6 line) = Inr (JObj d)"
  shows "sse_scan loads (line # post) =
           (case map_of d ''result'' of
              Some v \<Rightarrow> Inr v
            | None \<Rightarrow> (case map_of d ''error'' of
                         Some e \<Rightarrow> Inl (McpError e)
                       | None \<Rightarrow> sse_scan loads post))"
  using assms by (simp add: extract_outcome_obj split: option.splits)

lemma decode_body_json:
  assumes "\<not> sublist ''text/event-stream'' (resp_content_type r)" and "resp_json r = Some (JObj d)"
  shows "decode_body loads r =
           (case map_of d ''result'' of
              Some v \<Rightarrow> Inr v
            | None \<Rightarrow> (case map_of d ''error'' of
                         Some e \<Rightarrow> Inl (McpError e)
                       | None \<Rightarrow> Inr (JObj d)))"
  using assms by (simp add: decode_body_def extract_outcome_obj split: option.splits)

lemma always_reply: "always rep (sent (snd (mcp_request (always rep) loads m p n s))) = rep"
  by (simp add: always_def)

lemma json_response_fields:
  "resp_status (json_response data) = 200"
  "\<not> sublist ''text/event-stream'' (resp_content_type (json_response data))"
  "resp_json (json_response data) = Some data"
  "resp_session_id (json_response data) = None"
  by (simp_all add: json_response_def sublist_Cons_right prefix_Cons)

lemma sse_response_fields:
  "resp_status (sse_response body) = 200"
  "sublist ''text/event-stream'' (resp_content_type (sse_response body))"
  "resp_text (sse_response body) = body"
  "resp_session_id (sse_response body) = None"
  by (simp_all add: sse_response_def)

lemma deep_text_differs: "length t \<noteq> 100000 \<Longrightarrow> t \<noteq> deep_text"
  by (auto simp: deep_text_def)

lemma loads_sample_values:
  \<open>loads_sample ''{"result": 42}'' = Inr (JObj [(''result'', JInt 42)])\<close>
  \<open>loads_sample ''{"result": 1, "error": "boom"}'' =
     Inr (JObj [(''result'', JInt 1), (''error'', JStr ''boom'')])\<close>
  \<open>loads_sample ''{"error": "boom"}'' = Inr (JObj [(''error'', JStr ''boom'')])\<close>
  \<open>loads_sample ''{"method": "ping"}'' = Inr (JObj [(''method'', JStr ''ping'')])\<close>
  \<open>loads_sample ''{"memoryId": "m1"}'' = Inr (JObj [(''memoryId'', JStr ''m1'')])\<close>
  \<open>loads_sample ''42'' = Inr (JInt 42)\<close>
  \<open>loads_sample ''hello'' = Inl NotJSON\<close>
  \<open>loads_sample ''not json'' = Inl NotJSON\<close>
  \<open>loads_sample [] = Inl NotJSON\<close>
  by (simp_all add: loads_sample_def deep_text_differs)

lemma deep_text_differs': "length t \<noteq> 100000 \<Longrightarrow> deep_text \<noteq> t"
  by (auto simp: deep_text_def)

lemma loads_sample_deep: "loads_sample deep_text = Inl TooDeep"
  by (simp add: loads_sample_def deep_text_differs')

subsection \<open>Result and error in one document\<close>

text \<open>
  Claim C2, as amended. The code tests \<^verbatim>\<open>"result"\<close> before \<^verbatim>\<open>"error"\<close>, in the
  JSON branch and in the SSE branch alike. So when the decisive document is a map with a
  \<^verbatim>\<open>result\<close> key, \<^verbatim>\<open>_mcp_request\<close> returns that result, whether or not an
  \<^verbatim>\<open>error\<close> key is present; it fails with the error payload only when the map has an
  \<^verbatim>\<open>error\<close> key and no \<^verbatim>\<open>result\<close> key. In the SSE branch the decisive document
  is the one of the first \<^verbatim>\<open>data: \<close> line after lines that are no \<^verbatim>\<open>data: \<close>
  lines or hold maps with neither key.
\<close>

theorem result_takes_precedence:
  assumes reply: "srv (sent (snd (mcp_request srv loads m p False s))) = Reply r"
    and status: "resp_status r \<noteq> 202 \<and> resp_status r \<noteq> 204"
  shows "(\<not> sublist ''text/event-stream'' (resp_content_type r) \<and> resp_json r = Some (JObj d) \<longrightarrow>
            fst (mcp_request srv loads m p False s) =
              (case map_of d ''result'' of
                 Some v \<Rightarrow> Inr v
               | None \<Rightarrow> (case map_of d ''error'' of
                            Some e \<Rightarrow> Inl (McpError e)
                          | None \<Rightarrow> Inr (JObj d))))
       \<and> (sublist ''text/event-stream'' (resp_content_type r)
            \<and> split_on (CHR 0x0A) (resp_text r) = pre @ line # post
            \<and> (\<forall>l\<in>set pre. prefix ''data: '' l \<longrightarrow>
                  (\<exists>d'. loads (drop 6 l) = Inr (JObj d') \<and> map_of d' ''result'' = None
                        \<and> map_of d' ''error'' = None))
            \<and> prefix ''data: '' line \<and> loads (drop 6 line) = Inr (JObj d) \<longrightarrow>
            fst (mcp_request srv loads m p False s) =
              (case map_of d ''result'' of
                 Some v \<Rightarrow> Inr v
               | None \<Rightarrow> (case map_of d ''error'' of
                            Some e \<Rightarrow> Inl (McpError e)
                          | None \<Rightarrow> sse_scan loads post)))"
proof (intro conjI impI)
  have out: "fst (mcp_request srv loads m p False s) = decode_body loads r"
    using reply status by (rule mcp_request_read)
  {
    assume "\<not> sublist ''text/event-stream'' (resp_content_type r) \<and> resp_json r = Some (JObj d)"
    then show "fst (mcp_request srv loads m p False s) =
              (case map_of d ''result'' of
                 Some v \<Rightarrow> Inr v
               | None \<Rightarrow> (case map_of d ''error'' of
                            Some e \<Rightarrow> Inl (McpError e)
                          | None \<Rightarrow> Inr (JObj d)))"
      by (simp add: out decode_body_json)
  next
    assume sse: "sublist ''text/event-stream'' (resp_content_type r)
            \<and> split_on (CHR 0x0A) (resp_text r) = pre @ line # post
            \<and> (\<forall>l\<in>set pre. prefix ''data: '' l \<longrightarrow>
                  (\<exists>d'. loads (drop 6 l) = Inr (JObj d') \<and> map_of d' ''result'' = None
                        \<and> map_of d' ''error'' = None))
            \<and> prefix ''data: '' line \<and> loads (drop 6 line) = Inr (JObj d)"
    then have pre: "\<forall>l\<in>set pre. prefix ''data: '' l \<longrightarrow>
                  (\<exists>d'. loads (drop 6 l) = Inr (JObj d') \<and> map_of d' ''result'' = None
                        \<and> map_of d' ''error'' = None)"
      and line: "prefix ''data: '' line" "loads (drop 6 line) = Inr (JObj d)"
      by blast+
    have "decode_body loads r = sse_scan loads (line # post)"
      using sse sse_scan_skip_obj [OF pre] by (simp add: decode_body_def)
    also have "\<dots> = (case map_of d ''result'' of
              Some v \<Rightarrow> Inr v
            | None \<Rightarrow> (case map_of d ''error'' of
                         Some e \<Rightarrow> Inl (McpError e)
                       | None \<Rightarrow> sse_scan loads post))"
      using line by (rule sse_scan_frame)
    finally show "fst (mcp_request srv loads m p False s) =
              (case map_of d ''result'' of
                 Some v \<Rightarrow> Inr v
               | None \<Rightarrow> (case map_of d ''error'' of
                            Some e \<Rightarrow> Inl (McpError e)
                          | None \<Rightarrow> sse_scan loads post))"
      by (simp add: out)
  }
qed

theorem result_takes_precedence_witness:
  \<open>fst (mcp_request (always (Reply (json_response
          (JObj [(''result'', JInt 1), (''error'', JStr ''boom'')]))))
        loads_sample ''tools/call'' None False default_client) = Inr (JInt 1)
   \<and> fst (mcp_request (always (Reply (sse_response
          (''data: {"method": "ping"}'' @ [CHR 0x0A] @ ''data: {"error": "boom"}''))))
        loads_sample ''tools/call'' None False default_client) = Inl (McpError (JStr ''boom''))\<close>
proof -
  let ?doc = "[(''result'', JInt 1), (''error'', JStr ''boom'')]"
  let ?r1 = "json_response (JObj ?doc)"
  have "resp_status ?r1 \<noteq> 202 \<and> resp_status ?r1 \<noteq> 204"
    by (simp add: json_response_fields)
  from result_takes_precedence [where srv = "always (Reply ?r1)" and loads = loads_sample
      and m = "''tools/call''" and p = None and s = default_client and r = ?r1 and d = ?doc]
    always_reply [of "Reply ?r1"] this
  have a: "fst (mcp_request (always (Reply ?r1)) loads_sample ''tools/call'' None False
              default_client) = Inr (JInt 1)"
    by (simp add: json_response_fields)
  let ?body = \<open>''data: {"method": "ping"}'' @ [CHR 0x0A] @ ''data: {"error": "boom"}''\<close>
  let ?r2 = "sse_response ?body"
  have lines: \<open>split_on (CHR 0x0A) (resp_text ?r2) =
      [''data: {"method": "ping"}''] @ ''data: {"error": "boom"}'' # []\<close>
    by (simp add: sse_response_fields)
  have skipped: \<open>\<forall>l\<in>set [''data: {"method": "ping"}'']. prefix ''data: '' l \<longrightarrow>
                  (\<exists>d'. loads_sample (drop 6 l) = Inr (JObj d') \<and> map_of d' ''result'' = None
                        \<and> map_of d' ''error'' = None)\<close>
    by (simp add: loads_sample_values)
  have frame: \<open>prefix ''data: '' ''data: {"error": "boom"}''
      \<and> loads_sample (drop 6 ''data: {"error": "boom"}'') = Inr (JObj [(''error'', JStr ''boom'')])\<close>
    by (simp add: loads_sample_values)
  have "resp_status ?r2 \<noteq> 202 \<and> resp_status ?r2 \<noteq> 204"
    by (simp add: sse_response_fields)
  from result_takes_precedence [where srv = "always (Reply ?r2)" and loads = loads_sample
      and m = "''tools/call''" and p = None and s = default_client and r = ?r2
      and d = "[(''error'', JStr ''boom'')]" and pre = \<open>[''data: {"method": "ping"}'']\<close>
      and line = \<open>''data: {"error": "boom"}''\<close> and post = "[]"]
    always_reply [of "Reply ?r2"] this lines skipped frame
  have b: "fst (mcp_request (always (Reply ?r2)) loads_sample ''tools/call'' None False
              default_client) = Inl (McpError (JStr ''boom''))"
    by (simp add: sse_response_fields)
  from a b show ?thesis by simp
qed

text \<open>
  The claim as stated fails: a document with both keys yields the result, not the error,
  in the JSON branch and in the SSE branch.
\<close>

theorem error_precedence_counterexample:
  \<open>fst (mcp_request (always (Reply (json_response
          (JObj [(''result'', JInt 1), (''error'', JStr ''boom'')]))))
        loads_sample ''tools/call'' None False default_client) = Inr (JInt 1)
   \<and> fst (mcp_request (always (Reply (sse_response ''data: {"result": 1, "error": "boom"}'')))
        loads_sample ''tools/call'' None False default_client) = Inr (JInt 1)\<close>
  by (simp add: mcp_request_unfold always_def json_response_def sse_response_def receive_def
      decode_body_def extract_outcome_def sublist_Cons_right prefix_Cons loads_sample_def)

lemma sse_scan_undecodable:
  "prefix ''data: '' line \<Longrightarrow> loads (drop 6 line) = Inl failure \<Longrightarrow>
     sse_scan loads (line # post) = Inl (loads_error failure)"
  by simp





subsection \<open>Event streams\<close>




subsection \<open>Tool calls\<close>

lemma call_tool_outcome:
  "fst (call_tool srv loads t a s) =
     (case fst (mcp_request srv loads ''tools/call'' (Some (tool_params t a)) False
                  (if initialized s then s else snd (connect srv loads s))) of
        Inl e \<Rightarrow> Inl e
      | Inr result \<Rightarrow> unwrap_content loads result)"
  by (simp add: call_tool_def Let_def split: prod.splits sum.splits)

lemma unwrap_content_unchanged:
  assumes "\<forall>d first others. result = JObj d \<longrightarrow> map_of d ''content'' \<noteq> Some (JList (first # others))"
  shows "unwrap_content loads result = Inr result"
  using assms
  by (auto simp: unwrap_content_def dict_get_def split: json.splits option.splits list.splits)

lemma unwrap_content_not_block:
  assumes "map_of d ''content'' = Some (JList (first # others))" and "\<forall>b. first \<noteq> JObj b"
  shows "unwrap_content loads (JObj d) = Inl AttributeError"
  using assms by (auto simp: unwrap_content_def dict_get_def split: json.splits)

lemma unwrap_content_block:
  assumes "map_of d ''content'' = Some (JList (JObj block # others))"
  shows "unwrap_content loads (JObj d) =
           (case dict_get block ''text'' (JStr []) of
              JStr str \<Rightarrow>
                (case loads str of
                   Inr v \<Rightarrow> Inr v
                 | Inl NotJSON \<Rightarrow> Inr (JStr str)
                 | Inl failure \<Rightarrow> Inl (loads_error failure))
            | text \<Rightarrow> Inr text)"
  using assms
  by (auto simp: unwrap_content_def Let_def dict_get_def [of d]
      split: json.splits sum.splits loads_failure.splits)



lemma mcp_request_always_json:
  "fst (mcp_request (always (Reply (json_response (JObj d)))) loads m p False s) =
     (case map_of d ''result'' of
        Some v \<Rightarrow> Inr v
      | None \<Rightarrow> (case map_of d ''error'' of
                   Some e \<Rightarrow> Inl (McpError e)
                 | None \<Rightarrow> Inr (JObj d)))"
proof -
  have "fst (mcp_request (always (Reply (json_response (JObj d)))) loads m p False s)
          = decode_body loads (json_response (JObj d))"
    by (rule mcp_request_read) (simp_all add: always_reply json_response_fields)
  then show ?thesis
    by (simp add: decode_body_json json_response_fields)
qed

text \<open>
  Claim C8, as amended. Let \<open>result\<close> be what the \<^verbatim>\<open>tools/call\<close> request returned.
  When \<open>result\<close> is not a map with a list that is not empty under \<^verbatim>\<open>content\<close>,
  \<^verbatim>\<open>_call_tool\<close> returns \<open>result\<close> unchanged. Otherwise the first element of the
  list decides. When it is not a map, \<^verbatim>\<open>AttributeError\<close> is raised. When it is a map,
  its value under \<^verbatim>\<open>text\<close> is taken, the empty string when the key is missing. A value
  that is not a string is returned as it is. A string is given to \<^verbatim>\<open>json.loads\<close>: the
  decoded value is returned when it parses; the string itself is returned, and nothing is
  raised, when \<^verbatim>\<open>json.loads\<close> raises \<^verbatim>\<open>JSONDecodeError\<close>; any other exception of
  \<^verbatim>\<open>json.loads\<close> leaves \<^verbatim>\<open>_call_tool\<close>.
\<close>

theorem call_tool_unwraps_content:
  assumes "fst (mcp_request srv loads ''tools/call'' (Some (tool_params t a)) False
                  (if initialized s then s else snd (connect srv loads s))) = Inr result"
  shows "((\<forall>d first others. result = JObj d \<longrightarrow>
              map_of d ''content'' \<noteq> Some (JList (first # others))) \<longrightarrow>
            fst (call_tool srv loads t a s) = Inr result)
       \<and> (result = JObj d \<and> map_of d ''content'' = Some (JList (first # others))
            \<and> (\<forall>b. first \<noteq> JObj b) \<longrightarrow>
            fst (call_tool srv loads t a s) = Inl AttributeError)
       \<and> (result = JObj d \<and> map_of d ''content'' = Some (JList (JObj block # others))
            \<and> dict_get block ''text'' (JStr []) = other \<and> (\<forall>str. other \<noteq> JStr str) \<longrightarrow>
            fst (call_tool srv loads t a s) = Inr other)
       \<and> (result = JObj d \<and> map_of d ''content'' = Some (JList (JObj block # others))
            \<and> dict_get block ''text'' (JStr []) = JStr str \<and> loads str = Inr v \<longrightarrow>
            fst (call_tool srv loads t a s) = Inr v)
       \<and> (result = JObj d \<and> map_of d ''content'' = Some (JList (JObj block # others))
            \<and> dict_get block ''text'' (JStr []) = JStr str \<and> loads str = Inl NotJSON \<longrightarrow>
            fst (call_tool srv loads t a s) = Inr (JStr str))
       \<and> (result = JObj d \<and> map_of d ''content'' = Some (JList (JObj block # others))
            \<and> dict_get block ''text'' (JStr []) = JStr str \<and> loads str = Inl failure
            \<and> failure \<noteq> NotJSON \<longrightarrow>
            fst (call_tool srv loads t a s) = Inl (loads_error failure))"
proof -
  have out: "fst (call_tool srv loads t a s) = unwrap_content loads result"
    using assms by (simp add: call_tool_outcome)
  have unchanged: "(\<forall>d first others. result = JObj d \<longrightarrow>
              map_of d ''content'' \<noteq> Some (JList (first # others))) \<longrightarrow>
            fst (call_tool srv loads t a s) = Inr result"
    unfolding out by (simp add: unwrap_content_unchanged)
  have not_block: "result = JObj d \<and> map_of d ''content'' = Some (JList (first # others))
            \<and> (\<forall>b. first \<noteq> JObj b) \<longrightarrow>
            fst (call_tool srv loads t a s) = Inl AttributeError"
    unfolding out by (auto simp: unwrap_content_not_block)
  have not_string: "result = JObj d \<and> map_of d ''content'' = Some (JList (JObj block # others))
            \<and> dict_get block ''text'' (JStr []) = other \<and> (\<forall>str. other \<noteq> JStr str) \<longrightarrow>
            fst (call_tool srv loads t a s) = Inr other"
    unfolding out by (auto simp: unwrap_content_block split: json.splits)
  have parsed: "result = JObj d \<and> map_of d ''content'' = Some (JList (JObj block # others))
            \<and> dict_get block ''text'' (JStr []) = JStr str \<and> loads str = Inr v \<longrightarrow>
            fst (call_tool srv loads t a s) = Inr v"
    unfolding out by (auto simp: unwrap_content_block)
  have fallback: "result = JObj d \<and> map_of d ''content'' = Some (JList (JObj block # others))
            \<and> dict_get block ''text'' (JStr []) = JStr str \<and> loads str = Inl NotJSON \<longrightarrow>
            fst (call_tool srv loads t a s) = Inr (JStr str)"
    unfolding out by (auto simp: unwrap_content_block)
  have raised: "result = JObj d \<and> map_of d ''content'' = Some (JList (JObj block # others))
            \<and> dict_get block ''text'' (JStr []) = JStr str \<and> loads str = Inl failure
            \<and> failure \<noteq> NotJSON \<longrightarrow>
            fst (call_tool srv loads t a s) = Inl (loads_error failure)"
    unfolding out by (auto simp: unwrap_content_block split: loads_failure.splits)
  from unchanged not_block not_string parsed fallback raised show ?thesis
    by blast
qed


theorem call_tool_unwraps_content_witness:
  \<open>fst (call_tool (always (Reply (json_response (JObj [(''result'', JList [JInt 1])]))))
          loads_sample ''recall'' [(''query'', JStr ''hiking plans'')] default_client)
      = Inr (JList [JInt 1])
   \<and> fst (call_tool (always (Reply (json_response
            (JObj [(''result'', JObj [(''content'', JList [])])]))))
          loads_sample ''recall'' [(''query'', JStr ''hiking plans'')] default_client)
      = Inr (JObj [(''content'', JList [])])
   \<and> fst (call_tool (always (Reply (json_response
            (JObj [(''result'', JObj [(''content'', JList [JStr ''plain''])])]))))
          loads_sample ''recall'' [(''query'', JStr ''hiking plans'')] default_client)
      = Inl AttributeError
   \<and> fst (call_tool (always (Reply (json_response
            (JObj [(''result'', JObj [(''content'',
                JList [JObj [(''type'', JStr ''text''), (''text'', JNull)]])])]))))
          loads_sample ''recall'' [(''query'', JStr ''hiking plans'')] default_client)
      = Inr JNull
   \<and> fst (call_tool (always (Reply (json_response
            (JObj [(''result'', JObj [(''content'',
                JList [JObj [(''type'', JStr ''text''),
                             (''text'', JStr ''{"memoryId": "m1"}'')]])])]))))
          loads_sample ''store_memory'' [(''text'', JStr ''hello'')] default_client)
      = Inr (JObj [(''memoryId'', JStr ''m1'')])
   \<and> fst (call_tool (always (Reply (json_response
            (JObj [(''result'', JObj [(''content'',
                JList [JObj [(''type'', JStr ''text''), (''text'', JStr ''not json'')]])])]))))
          loads_sample ''recall'' [(''query'', JStr ''hiking plans'')] default_client)
      = Inr (JStr ''not json'')
   \<and> fst (call_tool (always (Reply (json_response
            (JObj [(''result'', JObj [(''content'',
                JList [JObj [(''type'', JStr ''text''), (''text'', JStr deep_text)]])])]))))
          loads_sample ''recall'' [(''query'', JStr ''hiking plans'')] default_client)
      = Inl RecursionError\<close>
proof -
  let ?args = "[(''query'', JStr ''hiking plans'')]"
  have a: "fst (call_tool (always (Reply (json_response (JObj [(''result'', JList [JInt 1])]))))
          loads_sample ''recall'' ?args default_client) = Inr (JList [JInt 1])"
    using call_tool_unwraps_content
      [where srv = "always (Reply (json_response (JObj [(''result'', JList [JInt 1])])))"
         and loads = loads_sample and t = "''recall''" and a = ?args and s = default_client
         and result = "JList [JInt 1]"]
    by (simp add: mcp_request_always_json)
  have b: "fst (call_tool (always (Reply (json_response
            (JObj [(''result'', JObj [(''content'', JList [])])]))))
          loads_sample ''recall'' ?args default_client) = Inr (JObj [(''content'', JList [])])"
    using call_tool_unwraps_content
      [where srv = "always (Reply (json_response
            (JObj [(''result'', JObj [(''content'', JList [])])])))"
         and loads = loads_sample and t = "''recall''" and a = ?args and s = default_client
         and result = "JObj [(''content'', JList [])]"]
    by (simp add: mcp_request_always_json)
  have c: "fst (call_tool (always (Reply (json_response
            (JObj [(''result'', JObj [(''content'', JList [JStr ''plain''])])]))))
          loads_sample ''recall'' ?args default_client) = Inl AttributeError"
    using call_tool_unwraps_content
      [where srv = "always (Reply (json_response
            (JObj [(''result'', JObj [(''content'', JList [JStr ''plain''])])])))"
         and loads = loads_sample and t = "''recall''" and a = ?args and s = default_client
         and result = "JObj [(''content'', JList [JStr ''plain''])]"
         and d = "[(''content'', JList [JStr ''plain''])]" and first = "JStr ''plain''"
         and others = "[]"]
    by (simp add: mcp_request_always_json)
  let ?block0 = "[(''type'', JStr ''text''), (''text'', JNull)]"
  have d: "fst (call_tool (always (Reply (json_response
            (JObj [(''result'', JObj [(''content'', JList [JObj ?block0])])]))))
          loads_sample ''recall'' ?args default_client) = Inr JNull"
    using call_tool_unwraps_content
      [where srv = "always (Reply (json_response
            (JObj [(''result'', JObj [(''content'', JList [JObj ?block0])])])))"
         and loads = loads_sample and t = "''recall''" and a = ?args and s = default_client
         and result = "JObj [(''content'', JList [JObj ?block0])]"
         and d = "[(''content'', JList [JObj ?block0])]" and block = ?block0 and others = "[]"
         and other = JNull]
    by (simp add: mcp_request_always_json dict_get_def)
  let ?block2 = \<open>[(''type'', JStr ''text''), (''text'', JStr ''{"memoryId": "m1"}'')]\<close>
  have e: "fst (call_tool (always (Reply (json_response
            (JObj [(''result'', JObj [(''content'', JList [JObj ?block2])])]))))
          loads_sample ''store_memory'' [(''text'', JStr ''hello'')] default_client)
      = Inr (JObj [(''memoryId'', JStr ''m1'')])"
    using call_tool_unwraps_content
      [where srv = "always (Reply (json_response
            (JObj [(''result'', JObj [(''content'', JList [JObj ?block2])])])))"
         and loads = loads_sample and t = "''store_memory''" and a = "[(''text'', JStr ''hello'')]"
         and s = default_client
         and result = "JObj [(''content'', JList [JObj ?block2])]"
         and d = "[(''content'', JList [JObj ?block2])]" and block = ?block2 and others = "[]"
         and str = \<open>''{"memoryId": "m1"}''\<close> and v = "JObj [(''memoryId'', JStr ''m1'')]"]
    by (simp add: mcp_request_always_json loads_sample_values dict_get_def)
  let ?block1 = "[(''type'', JStr ''text''), (''text'', JStr ''not json'')]"
  have f: "fst (call_tool (always (Reply (json_response
            (JObj [(''result'', JObj [(''content'', JList [JObj ?block1])])]))))
          loads_sample ''recall'' ?args default_client) = Inr (JStr ''not json'')"
    using call_tool_unwraps_content
      [where srv = "always (Reply (json_response
            (JObj [(''result'', JObj [(''content'', JList [JObj ?block1])])])))"
         and loads = loads_sample and t = "''recall''" and a = ?args and s = default_client
         and result = "JObj [(''content'', JList [JObj ?block1])]"
         and d = "[(''content'', JList [JObj ?block1])]" and block = ?block1 and others = "[]"
         and str = "''not json''"]
    by (simp add: mcp_request_always_json loads_sample_values dict_get_def)
  let ?block3 = "[(''type'', JStr ''text''), (''text'', JStr deep_text)]"
  have g: "fst (call_tool (always (Reply (json_response
            (JObj [(''result'', JObj [(''content'', JList [JObj ?block3])])]))))
          loads_sample ''recall'' ?args default_client) = Inl RecursionError"
    using call_tool_unwraps_content
      [where srv = "always (Reply (json_response
            (JObj [(''result'', JObj [(''content'', JList [JObj ?block3])])])))"
         and loads = loads_sample and t = "''recall''" and a = ?args and s = default_client
         and result = "JObj [(''content'', JList [JObj ?block3])]"
         and d = "[(''content'', JList [JObj ?block3])]" and block = ?block3 and others = "[]"
         and str = deep_text and failure = TooDeep]
    by (simp add: mcp_request_always_json loads_sample_deep dict_get_def)
  from a b c d e f g show ?thesis by simp
qed

text \<open>
  The claim as stated fails in three ways. A first block without \<^verbatim>\<open>text\<close> yields
  nothing to unwrap, and the call returns the empty string, not the result. A text on
  which \<^verbatim>\<open>json.loads\<close> raises \<^verbatim>\<open>RecursionError\<close> is not returned as a string: the
  exception leaves the call. A first element that is not a map makes the call raise
  \<^verbatim>\<open>AttributeError\<close>.
\<close>

theorem call_tool_unwrap_counterexample:
  "fst (call_tool (always (Reply (json_response
            (JObj [(''result'', JObj [(''content'', JList [JObj [(''type'', JStr ''image'')]])])]))))
          loads_sample ''recall'' [(''query'', JStr ''hiking plans'')] default_client)
      = Inr (JStr [])
   \<and> fst (call_tool (always (Reply (json_response
            (JObj [(''result'', JObj [(''content'',
                JList [JObj [(''type'', JStr ''text''), (''text'', JStr deep_text)]])])]))))
          loads_sample ''recall'' [(''query'', JStr ''hiking plans'')] default_client)
      = Inl RecursionError
   \<and> fst (call_tool (always (Reply (json_response
            (JObj [(''result'', JObj [(''content'', JList [JStr ''plain''])])]))))
          loads_sample ''recall'' [(''query'', JStr ''hiking plans'')] default_client)
      = Inl AttributeError"
  by (simp add: call_tool_outcome mcp_request_always_json unwrap_content_def dict_get_def
      loads_sample_values loads_sample_deep)












subsection \<open>The handshake\<close>

lemma mcp_request_initialized:
  "initialized (snd (mcp_request srv loads m p n s)) = initialized s"
  by (simp add: mcp_request_unfold receive_fields build_request_state get_session_fields)



lemma connect_initialize_failure:
  assumes "fst (mcp_request srv loads ''initialize'' (Some (initialize_params s)) False s) = Inl e"
  shows "fst (connect srv loads s) = False
       \<and> initialized (snd (connect srv loads s)) = initialized s"
  using assms mcp_request_initialized [of srv loads "''initialize''" "Some (initialize_params s)" False s]
  by (auto simp: connect_def split: prod.splits sum.splits)


text \<open>
  Claim C3 fails in the code. \<^verbatim>\<open>connect\<close> sets \<^verbatim>\<open>_initialized\<close> after the
  \<^verbatim>\<open>initialize\<close> request and before the notification, and the handler of
  \<^verbatim>\<open>except Exception\<close> does not reset it. With a server that answers
  \<^verbatim>\<open>initialize\<close> and then drops the connection, a new client's \<^verbatim>\<open>connect\<close>
  returns \<^verbatim>\<open>False\<close> and leaves the flag set. (When the \<^verbatim>\<open>initialize\<close> request
  itself fails the flag is left as it was, \<open>connect_initialize_failure\<close>.)
\<close>

theorem connect_failed_notification_keeps_flag:
  "initialized default_client = False
   \<and> fst (connect (answers_once ok_response) loads_sample default_client) = False
   \<and> initialized (snd (connect (answers_once ok_response) loads_sample default_client)) = True"
  by (simp add: connect_def mcp_request_unfold receive_def decode_body_def extract_outcome_def
      answers_once_def ok_response_def json_response_def default_client_def new_client_def
      build_request_def next_id_def get_session_def sublist_Cons_right prefix_Cons Let_def)





subsection \<open>The session id\<close>

lemma receive_session_id:
  "mcp_session_id (snd (receive loads n (Reply r) s)) =
     (case resp_session_id r of
        Some sid \<Rightarrow> if sid \<noteq> [] then Some sid else mcp_session_id s
      | None \<Rightarrow> mcp_session_id s)"
  by (simp add: receive_def Let_def split: option.splits)

lemma build_request_session_header:
  "map_of (req_headers (fst (build_request m p n s))) ''Mcp-Session-Id'' =
     (case mcp_session_id s of
        Some sid \<Rightarrow> if sid \<noteq> [] then Some sid else None
      | None \<Rightarrow> None)"
  by (simp add: build_request_def next_id_def split_beta split: option.splits)

lemma mcp_request_session_header:
  "map_of (req_headers (last (sent (snd (mcp_request srv loads m p n s))))) ''Mcp-Session-Id'' =
     (case mcp_session_id s of
        Some sid \<Rightarrow> if sid \<noteq> [] then Some sid else None
      | None \<Rightarrow> None)"
  by (simp add: mcp_request_sent build_request_session_header get_session_fields)

text \<open>
  Claim C6, as amended. When a response arrives with a header \<^verbatim>\<open>Mcp-Session-Id\<close> whose
  value is not empty, the value is stored in the client, over whatever was stored before.
  This holds for a request and for a notification, for every status and content type, and
  also when decoding the body then raises: the store is done first and stays. The next
  request the client posts, whatever it is, carries the value in its header
  \<^verbatim>\<open>Mcp-Session-Id\<close>.
\<close>

theorem session_id_stored_and_sent:
  assumes reply: "srv (sent (snd (mcp_request srv loads m p n s))) = Reply r"
    and header: "resp_session_id r = Some sid"
    and nonempty: "sid \<noteq> []"
  shows "mcp_session_id (snd (mcp_request srv loads m p n s)) = Some sid
       \<and> map_of (req_headers (last (sent (snd (mcp_request srv' loads' m' p' n'
                    (snd (mcp_request srv loads m p n s))))))) ''Mcp-Session-Id'' = Some sid"
proof -
  have "srv (sent s @ [fst (build_request m p n (get_session s))]) = Reply r"
    using reply by (simp add: mcp_request_sent)
  then have stored: "mcp_session_id (snd (mcp_request srv loads m p n s)) = Some sid"
    using header nonempty by (simp add: mcp_request_unfold receive_session_id)
  then show ?thesis
    using nonempty by (simp add: mcp_request_session_header)
qed


theorem session_id_stored_and_sent_witness:
  "fst (mcp_request (always (Reply (with_session_id ''abc123'' bad_request_response)))
         loads_sample ''tools/list'' None False
         (default_client\<lparr>mcp_session_id := Some ''old''\<rparr>)) = Inl JSONDecodeError
   \<and> mcp_session_id (snd (mcp_request
         (always (Reply (with_session_id ''abc123'' bad_request_response)))
         loads_sample ''tools/list'' None False
         (default_client\<lparr>mcp_session_id := Some ''old''\<rparr>))) = Some ''abc123''
   \<and> map_of (req_headers (last (sent (snd (mcp_request (always Fail) loads_sample
         ''tools/call'' None False
         (snd (mcp_request (always (Reply (with_session_id ''abc123'' bad_request_response)))
                loads_sample ''tools/list'' None False
                (default_client\<lparr>mcp_session_id := Some ''old''\<rparr>)))))))) ''Mcp-Session-Id''
       = Some ''abc123''"
proof -
  let ?r = "with_session_id ''abc123'' bad_request_response"
  let ?s = "default_client\<lparr>mcp_session_id := Some ''old''\<rparr>"
  have header: "resp_session_id ?r = Some ''abc123''"
    by (simp add: with_session_id_def)
  have err: "fst (mcp_request (always (Reply ?r)) loads_sample ''tools/list'' None False ?s)
               = Inl JSONDecodeError"
    by (simp add: mcp_request_unfold always_def receive_def decode_body_def
        with_session_id_def bad_request_response_def sublist_Cons_right prefix_Cons)
  from session_id_stored_and_sent [where srv = "always (Reply ?r)" and loads = loads_sample
      and m = "''tools/list''" and p = None and n = False and s = ?s and r = ?r
      and sid = "''abc123''" and srv' = "always Fail" and loads' = loads_sample
      and m' = "''tools/call''" and p' = None and n' = False, OF always_reply header]
  have "mcp_session_id (snd (mcp_request (always (Reply ?r)) loads_sample ''tools/list'' None
            False ?s)) = Some ''abc123''
      \<and> map_of (req_headers (last (sent (snd (mcp_request (always Fail) loads_sample
            ''tools/call'' None False
            (snd (mcp_request (always (Reply ?r)) loads_sample ''tools/list'' None False ?s)))))))
          ''Mcp-Session-Id'' = Some ''abc123''"
    by simp
  with err show ?thesis by simp
qed

text \<open>
  The claim as stated fails on a header that is present with an empty value: the test
  \<^verbatim>\<open>if sid\<close> is false on the empty string, and the value stored before stays.
\<close>

theorem blank_session_header_counterexample:
  "resp_session_id (with_session_id [] ok_response) = Some []
   \<and> mcp_session_id (snd (mcp_request (always (Reply (with_session_id [] ok_response)))
         loads_sample ''tools/list'' None False
         (default_client\<lparr>mcp_session_id := Some ''old''\<rparr>))) = Some ''old''"
  by (simp add: mcp_request_unfold always_def receive_def with_session_id_def ok_response_def
      json_response_def build_request_def next_id_def get_session_def default_client_def
      new_client_def Let_def)

subsection \<open>Normalising a memory\<close>

lemma py_replace_absent: "c \<notin> set s \<Longrightarrow> py_replace [c] new s = s"
  by (induction s) auto

lemma py_replace_trailing: "c \<notin> set body \<Longrightarrow> py_replace [c] new (body @ [c]) = body @ new"
  by (induction body) auto

lemma from_dict_timestamp_string:
  assumes "dict_get data ''timestamp'' (dict_get data ''createdAt'' (JStr now_iso)) = JStr str"
    and "fromisoformat (py_replace ''Z'' ''+00:00'' str) = Some d"
  shows "\<exists>m. from_dict fromisoformat now_iso data = Inr m \<and> mem_timestamp m = Parsed d"
  using assms by (simp add: from_dict_def Let_def)

text \<open>
  Claim C9. Whatever the parser and the clock: normalising the map with \<^verbatim>\<open>content\<close>
  \<^verbatim>\<open>hi\<close> and \<^verbatim>\<open>timestamp\<close> \<^verbatim>\<open>2024-01-01T00:00:00Z\<close> gives the memory whose
  timestamp is what \<^verbatim>\<open>datetime.fromisoformat\<close> returns on
  \<^verbatim>\<open>2024-01-01T00:00:00+00:00\<close>, with salience 50, empty id, no entity and an empty
  context. In general a timestamp string (under \<^verbatim>\<open>timestamp\<close>, or under
  \<^verbatim>\<open>createdAt\<close> when \<^verbatim>\<open>timestamp\<close> is missing) that ends in \<^verbatim>\<open>Z\<close>, with no other
  \<^verbatim>\<open>Z\<close> in it, is parsed with \<^verbatim>\<open>+00:00\<close> in place of the \<^verbatim>\<open>Z\<close>. With neither
  key in the map, the timestamp is the clock's: the parser applied to
  \<^verbatim>\<open>datetime.now().isoformat()\<close>, which has no \<^verbatim>\<open>Z\<close> in it.
\<close>

theorem memory_from_dict_timestamp:
  "(fromisoformat ''2024-01-01T00:00:00+00:00'' = Some d \<longrightarrow>
      from_dict fromisoformat now_iso
        [(''content'', JStr ''hi''), (''timestamp'', JStr ''2024-01-01T00:00:00Z'')]
      = Inr \<lparr> mem_id = JStr [], mem_content = JStr ''hi'', mem_salience = JInt 50,
              mem_timestamp = Parsed d, mem_entity = JNull, mem_context = JObj [] \<rparr>)
   \<and> ((map_of data ''timestamp'' = Some (JStr (body @ ''Z''))
         \<or> map_of data ''timestamp'' = None
            \<and> map_of data ''createdAt'' = Some (JStr (body @ ''Z'')))
        \<and> CHR ''Z'' \<notin> set body
        \<and> fromisoformat (body @ ''+00:00'') = Some d \<longrightarrow>
      (\<exists>m. from_dict fromisoformat now_iso data = Inr m \<and> mem_timestamp m = Parsed d))
   \<and> (map_of data ''timestamp'' = None \<and> map_of data ''createdAt'' = None
        \<and> CHR ''Z'' \<notin> set now_iso \<and> fromisoformat now_iso = Some d \<longrightarrow>
      (\<exists>m. from_dict fromisoformat now_iso data = Inr m \<and> mem_timestamp m = Parsed d
           \<and> mem_salience m = dict_get data ''salience''
                (dict_get data ''salience_score'' (dict_get data ''salienceScore'' (JInt 50)))))"
proof (intro conjI impI)
  assume "fromisoformat ''2024-01-01T00:00:00+00:00'' = Some d"
  then show "from_dict fromisoformat now_iso
        [(''content'', JStr ''hi''), (''timestamp'', JStr ''2024-01-01T00:00:00Z'')]
      = Inr \<lparr> mem_id = JStr [], mem_content = JStr ''hi'', mem_salience = JInt 50,
              mem_timestamp = Parsed d, mem_entity = JNull, mem_context = JObj [] \<rparr>"
    by (simp add: from_dict_def dict_get_def Let_def)
next
  assume a: "(map_of data ''timestamp'' = Some (JStr (body @ ''Z''))
         \<or> map_of data ''timestamp'' = None
            \<and> map_of data ''createdAt'' = Some (JStr (body @ ''Z'')))
        \<and> CHR ''Z'' \<notin> set body
        \<and> fromisoformat (body @ ''+00:00'') = Some d"
  then have "py_replace ''Z'' ''+00:00'' (body @ ''Z'') = body @ ''+00:00''"
    by (simp add: py_replace_trailing)
  with a show "\<exists>m. from_dict fromisoformat now_iso data = Inr m \<and> mem_timestamp m = Parsed d"
    by (intro from_dict_timestamp_string [where str = "body @ ''Z''"]) (auto simp: dict_get_def)
next
  assume a: "map_of data ''timestamp'' = None \<and> map_of data ''createdAt'' = None
        \<and> CHR ''Z'' \<notin> set now_iso \<and> fromisoformat now_iso = Some d"
  then have "py_replace ''Z'' ''+00:00'' now_iso = now_iso"
    by (simp add: py_replace_absent)
  with a show "\<exists>m. from_dict fromisoformat now_iso data = Inr m \<and> mem_timestamp m = Parsed d
           \<and> mem_salience m = dict_get data ''salience''
                (dict_get data ''salience_score'' (dict_get data ''salienceScore'' (JInt 50)))"
    by (simp add: from_dict_def dict_get_def Let_def)
qed

theorem memory_from_dict_timestamp_witness:
  "from_dict Some ''2024-06-01T12:00:00.000001''
        [(''content'', JStr ''hi''), (''timestamp'', JStr ''2024-01-01T00:00:00Z'')]
      = Inr \<lparr> mem_id = JStr [], mem_content = JStr ''hi'', mem_salience = JInt 50,
              mem_timestamp = Parsed ''2024-01-01T00:00:00+00:00'', mem_entity = JNull,
              mem_context = JObj [] \<rparr>
   \<and> (\<exists>m. from_dict Some ''2024-06-01T12:00:00.000001''
              [(''text'', JStr ''hello''), (''timestamp'', JStr ''2023-12-31T23:59:59Z'')] = Inr m
          \<and> mem_timestamp m = Parsed ''2023-12-31T23:59:59+00:00'')
   \<and> (\<exists>m. from_dict Some ''2024-06-01T12:00:00.000001'' [(''content'', JStr ''hi'')] = Inr m
          \<and> mem_timestamp m = Parsed ''2024-06-01T12:00:00.000001''
          \<and> mem_salience m = JInt 50)"
proof -
  let ?now = "''2024-06-01T12:00:00.000001''"
  have a: "from_dict Some ?now
        [(''content'', JStr ''hi''), (''timestamp'', JStr ''2024-01-01T00:00:00Z'')]
      = Inr \<lparr> mem_id = JStr [], mem_content = JStr ''hi'', mem_salience = JInt 50,
              mem_timestamp = Parsed ''2024-01-01T00:00:00+00:00'', mem_entity = JNull,
              mem_context = JObj [] \<rparr>"
    using memory_from_dict_timestamp [where fromisoformat = Some
        and d = "''2024-01-01T00:00:00+00:00''" and now_iso = ?now]
    by simp
  have b: "\<exists>m. from_dict Some ?now
              [(''text'', JStr ''hello''), (''timestamp'', JStr ''2023-12-31T23:59:59Z'')] = Inr m
          \<and> mem_timestamp m = Parsed ''2023-12-31T23:59:59+00:00''"
    using memory_from_dict_timestamp [where fromisoformat = Some
        and d = "''2023-12-31T23:59:59+00:00''" and now_iso = ?now
        and data = "[(''text'', JStr ''hello''), (''timestamp'', JStr ''2023-12-31T23:59:59Z'')]"
        and body = "''2023-12-31T23:59:59''"]
    by simp
  have c: "\<exists>m. from_dict Some ?now [(''content'', JStr ''hi'')] = Inr m
          \<and> mem_timestamp m = Parsed ?now \<and> mem_salience m = JInt 50"
    using memory_from_dict_timestamp [where fromisoformat = Some
        and d = ?now and now_iso = ?now and data = "[(''content'', JStr ''hi'')]"]
    by (simp add: dict_get_def)
  from a b c show ?thesis by blast
qed


subsection \<open>The singleton\<close>

text \<open>
  Claim C10. Starting from a module whose \<^verbatim>\<open>_client\<close> is \<^verbatim>\<open>None\<close>, the first call
  of \<^verbatim>\<open>get_memorable_client\<close> creates a client from its arguments and makes
  \<^verbatim>\<open>_client\<close> refer to it. Every later call, with whatever arguments and whatever has
  been done to the objects in between, returns the same reference and changes nothing: the
  arguments are not looked at.
\<close>

theorem singleton_ignores_later_arguments:
  assumes "client_ref g = None"
  shows "objects (snd (get_memorable_client url ent dev kind g))
           ! fst (get_memorable_client url ent dev kind g) = new_client url ent dev kind
       \<and> client_ref (snd (get_memorable_client url ent dev kind g))
           = Some (fst (get_memorable_client url ent dev kind g))
       \<and> get_memorable_client url' ent' dev' kind' (snd (get_memorable_client url ent dev kind g))
           = (fst (get_memorable_client url ent dev kind g),
              snd (get_memorable_client url ent dev kind g))
       \<and> (\<forall>g'. client_ref g' = client_ref (snd (get_memorable_client url ent dev kind g)) \<longrightarrow>
             get_memorable_client url' ent' dev' kind' g'
               = (fst (get_memorable_client url ent dev kind g), g'))"
  using assms by (simp add: get_memorable_client_def Let_def)

theorem singleton_ignores_later_arguments_witness:
  "client_ref module_init = None
   \<and> get_memorable_client ''http://52.9.62.72:8080/mcp'' ''chloe'' ''johnny5-main'' ''robot''
        module_init = (0, \<lparr> objects = [default_client], client_ref = Some 0 \<rparr>)
   \<and> get_memorable_client ''https://example.org/mcp'' ''alan'' ''phone-1'' ''phone''
        \<lparr> objects = [default_client], client_ref = Some 0 \<rparr>
       = (0, \<lparr> objects = [default_client], client_ref = Some 0 \<rparr>)
   \<and> get_memorable_client ''https://example.org/mcp'' ''alan'' ''phone-1'' ''phone''
        \<lparr> objects = [ready_client], client_ref = Some 0 \<rparr>
       = (0, \<lparr> objects = [ready_client], client_ref = Some 0 \<rparr>)"
proof -
  have first: "get_memorable_client ''http://52.9.62.72:8080/mcp'' ''chloe'' ''johnny5-main''
        ''robot'' module_init = (0, \<lparr> objects = [default_client], client_ref = Some 0 \<rparr>)"
    by (simp add: get_memorable_client_def module_init_def default_client_def Let_def)
  have none: "client_ref module_init = None"
    by (simp add: module_init_def)
  from singleton_ignores_later_arguments [OF none, where url = "''http://52.9.62.72:8080/mcp''"
      and ent = "''chloe''" and dev = "''johnny5-main''" and kind = "''robot''"
      and url' = "''https://example.org/mcp''" and ent' = "''alan''" and dev' = "''phone-1''"
      and kind' = "''phone''"]
  have later: "get_memorable_client ''https://example.org/mcp'' ''alan'' ''phone-1'' ''phone''
        \<lparr> objects = [default_client], client_ref = Some 0 \<rparr>
       = (0, \<lparr> objects = [default_client], client_ref = Some 0 \<rparr>)"
    and mutated: "get_memorable_client ''https://example.org/mcp'' ''alan'' ''phone-1'' ''phone''
        \<lparr> objects = [ready_client], client_ref = Some 0 \<rparr>
       = (0, \<lparr> objects = [ready_client], client_ref = Some 0 \<rparr>)"
    by (simp_all add: first)
  from none first later mutated show ?thesis by simp
qed

end
